theory Spec2Isabelle
  imports Main
begin

section \<open>Message types\<close>

text \<open>
  Modelled from the spec: the generated declarations \<^verbatim>\<open>messages/ChangeId\<close>,
  \<^verbatim>\<open>messages/CommitId\<close>, \<^verbatim>\<open>messages/RevId\<close>, \<^verbatim>\<open>messages/RevHeader\<close>,
  \<^verbatim>\<open>messages/RefName\<close> and \<^verbatim>\<open>messages/TreePath\<close> are not among the sources (only
  \<^verbatim>\<open>messages/Operand\<close> is). The records below carry the fields that
  \<^verbatim>\<open>BinaryMutator\<close> and the components read: an identity pair of a change id and a
  commit id (each a hex string with a prefix and a rest), the ordered parent commit ids,
  and the immutability, working-copy and conflict flags of a revision header; the variant
  and the name of a branch reference; the relative path of a tree path.

  Field names follow the source except where two records would share a name or the name
  is a HOL constant: \<^verbatim>\<open>ChangeId.hex\<close> is \<open>change_hex\<close>, \<^verbatim>\<open>CommitId.hex\<close> is
  \<open>commit_hex\<close>, \<^verbatim>\<open>RevHeader.id\<close> is \<open>rid\<close>, \<^verbatim>\<open>RefName.type\<close> is \<open>ref_type\<close>.
\<close>

record ChangeId =
  change_hex :: string
  change_prefix :: string
  change_rest :: string

record CommitId =
  commit_hex :: string
  commit_prefix :: string
  commit_rest :: string

record RevId =
  change :: ChangeId
  commit :: CommitId

record RevHeader =
  rid :: RevId
  parent_ids :: "CommitId list"
  is_immutable :: bool
  is_working_copy :: bool
  has_conflict :: bool

datatype RefType = LocalBranch | RemoteBranch

record RefName =
  ref_type :: RefType
  branch_name :: string

record TreePath =
  relative_path :: string

section \<open>Objects and the store\<close>

text \<open>
  Every value the program handles is a JavaScript object, and \<^verbatim>\<open>==\<close> between two
  objects compares references. \<^verbatim>\<open>canDrop\<close> compares the two operands
  (\<^verbatim>\<open>this.#from == this.#to\<close>) and two headers (\<^verbatim>\<open>this.#to.child == this.#from.header\<close>)
  that way, so operands and headers are addresses into a store: two addresses may hold
  equal contents and still be different objects. The store is split by type, one
  component for headers and one for operands. Paths and branch names are only ever read
  field by field, so they stay values.
\<close>

type_synonym addr = nat

text \<open>\<^verbatim>\<open>messages/Operand\<close>: the tagged union, with \<open>is_X\<close> for \<^verbatim>\<open>type == "X"\<close>.\<close>

datatype Operand =
    is_Repository: Repository
  | is_Revision: Revision (header: addr)
  | is_Merge: Merge (header: addr)
  | is_Parent: Parent (header: addr) (child: addr)
  | is_Change: Change (header: addr) (path: TreePath)
  | is_Branch: Branch (header: addr) (name: RefName)

record store =
  headers :: "addr \<Rightarrow> RevHeader"
  operands :: "addr \<Rightarrow> Operand"

section \<open>Eligibility\<close>

text \<open>
  \<^verbatim>\<open>RichHint = (string | ChangeId | CommitId)[]\<close> and
  \<^verbatim>\<open>Eligibility = {type: "yes", hint: RichHint} | {type: "maybe", hint: string} | {type: "no"}\<close>.
\<close>

datatype HintPart = Text string | ChangeRef ChangeId | CommitRef CommitId

type_synonym RichHint = "HintPart list"

datatype Eligibility =
    is_Yes: Yes RichHint
  | is_Maybe: Maybe string
  | is_No: No

section \<open>Requests\<close>

text \<open>
  The payloads of the mutation requests, with the fields in the order the source writes
  them: \<^verbatim>\<open>MoveRevision {id, parent_ids}\<close>, \<^verbatim>\<open>InsertRevision {id, after_id, before_id}\<close>,
  \<^verbatim>\<open>MoveSource {id, parent_ids}\<close>, \<^verbatim>\<open>AbandonRevisions {ids}\<close>,
  \<^verbatim>\<open>MoveChanges {from_id, to_id, paths}\<close>, \<^verbatim>\<open>CopyChanges {from_id, to_id, paths}\<close>,
  \<^verbatim>\<open>MoveBranch {to_id, name}\<close>. \<^verbatim>\<open>CopyChanges.from_id\<close> is read from an array by
  index, which in JavaScript yields \<^verbatim>\<open>undefined\<close> out of range: it is an option.

  \<^verbatim>\<open>doDrop\<close> returns nothing; what it does is call \<^verbatim>\<open>mutate(command, payload)\<close> or
  \<^verbatim>\<open>console.log(message)\<close>. The model returns the calls made, in order.
\<close>

datatype Payload =
    MoveRevision RevId "RevId list"
  | InsertRevision RevId RevId RevId
  | MoveSource RevId "CommitId list"
  | AbandonRevisions "CommitId list"
  | MoveChanges RevId CommitId "TreePath list"
  | CopyChanges "CommitId option" RevId "TreePath list"
  | MoveBranch RevId RefName

datatype Effect = Mutate string Payload | ConsoleLog string

text \<open>\<^verbatim>\<open>xs[i]\<close> on a JavaScript array: \<^verbatim>\<open>undefined\<close> (here \<open>None\<close>) out of range.\<close>

definition js_index :: "'a list \<Rightarrow> nat \<Rightarrow> 'a option" where
  "js_index xs i = (if i < length xs then Some (xs ! i) else None)"

section \<open>BinaryMutator\<close>

record BinaryMutator =
  m_from :: addr
  m_to :: addr

text \<open>
  \<^verbatim>\<open>static canDrag(from)\<close>. It compares no references, so it takes the operand's
  contents; the store resolves the headers the operand points to.
\<close>

definition canDrag :: "store \<Rightarrow> Operand \<Rightarrow> Eligibility" where
  "canDrag s frm =
    (if (is_Revision frm \<or> is_Change frm) \<and> is_immutable (headers s (header frm)) then
       Maybe ''(revision is immutable)''
     else if is_Parent frm \<and> is_immutable (headers s (child frm)) then
       Maybe ''(child is immutable)''
     else if is_Parent frm \<and> length (parent_ids (headers s (child frm))) = 1 then
       Maybe ''(child has only one parent)''
     else if is_Branch frm \<and> ref_type (name frm) = RemoteBranch then
       Maybe ''(branch is remote)''
     else if is_Revision frm then
       Yes [Text ''Rebasing revision '', ChangeRef (change (rid (headers s (header frm))))]
     else if is_Parent frm then
       Yes [Text ''Removing parent from revision '',
            ChangeRef (change (rid (headers s (child frm))))]
     else if is_Change frm then
       Yes [Text (''Squashing changes at '' @ relative_path (path frm))]
     else if is_Branch frm then
       Yes [Text (''Moving branch '' @ branch_name (name frm))]
     else No)"

text \<open>
  \<^verbatim>\<open>canDrop()\<close>. The source nests the test of \<^verbatim>\<open>to.type\<close> inside the test of
  \<^verbatim>\<open>from.type\<close> and falls through to the final \<^verbatim>\<open>no\<close>; since \<^verbatim>\<open>from.type\<close> does not
  change, the chain below visits the same cells in the same order. \<open>m_from m = m_to m\<close>
  and \<open>child t = header f\<close> are the two reference comparisons.
\<close>

definition canDrop :: "store \<Rightarrow> BinaryMutator \<Rightarrow> Eligibility" where
  "canDrop s m =
    (let f = operands s (m_from m); t = operands s (m_to m) in
     if \<not> is_Yes (canDrag s f) \<and> \<not> (is_Revision f \<and> is_Merge t) then No
     else if m_from m = m_to m then No
     else if is_Revision f \<and> is_Revision t then
       Yes [Text ''Rebasing revision '', ChangeRef (change (rid (headers s (header f)))),
            Text '' onto '', ChangeRef (change (rid (headers s (header t))))]
     else if is_Revision f \<and> is_Parent t then
       (if child t = header f then No
        else if is_immutable (headers s (child t)) then
          Maybe ''(can't insert before an immutable revision)''
        else
          Yes [Text ''Inserting revision '', ChangeRef (change (rid (headers s (header f)))),
               Text '' before '', ChangeRef (change (rid (headers s (child t))))])
     else if is_Revision f \<and> is_Merge t then
       (if change_hex (change (rid (headers s (header t))))
           = change_hex (change (rid (headers s (header f)))) then No
        else
          Yes [Text ''Adding parent to revision '',
               ChangeRef (change (rid (headers s (header t))))])
     else if is_Revision f \<and> is_Repository t then
       Yes [Text ''Abandoning commit '', CommitRef (commit (rid (headers s (header f))))]
     else if is_Parent f \<and> is_Repository t then
       Yes [Text ''Removing parent from revision '',
            ChangeRef (change (rid (headers s (child f))))]
     else if is_Change f \<and> is_Revision t then
       (if change_hex (change (rid (headers s (header t))))
           = change_hex (change (rid (headers s (header f)))) then No
        else if is_immutable (headers s (header t)) then
          Maybe ''(revision is immutable)''
        else
          Yes [Text (''Squashing changes at '' @ relative_path (path f) @ '' into ''),
               ChangeRef (change (rid (headers s (header t))))])
     else if is_Change f \<and> is_Repository t then
       (if length (parent_ids (headers s (header f))) = 1 then
          Yes [Text (''Restoring changes at '' @ relative_path (path f) @ '' from parent ''),
               CommitRef (parent_ids (headers s (header f)) ! 0)]
        else
          Maybe ''Can't restore: revision has multiple parents.'')
     else if is_Branch f \<and> is_Revision t then
       Yes [Text (''Moving branch '' @ branch_name (name f) @ '' to ''),
            ChangeRef (change (rid (headers s (header t))))]
     else if is_Branch f \<and> is_Branch t \<and> branch_name (name f) = branch_name (name t) then
       Yes [Text (''Resetting branch '' @ branch_name (name f) @ '' to remote'')]
     else No)"

text \<open>
  \<^verbatim>\<open>doDrop()\<close>. Every cell calls \<^verbatim>\<open>mutate\<close> once and returns; a pair that matches no
  cell reaches the final \<^verbatim>\<open>console.log\<close>. \<^verbatim>\<open>doDrop\<close> does not call \<^verbatim>\<open>canDrop\<close>.
\<close>

definition doDrop :: "store \<Rightarrow> BinaryMutator \<Rightarrow> Effect list" where
  "doDrop s m =
    (let f = operands s (m_from m); t = operands s (m_to m) in
     if is_Revision f \<and> is_Revision t then
       [Mutate ''move_revision''
          (MoveRevision (rid (headers s (header f))) [rid (headers s (header t))])]
     else if is_Revision f \<and> is_Parent t then
       [Mutate ''insert_revision''
          (InsertRevision (rid (headers s (header f))) (rid (headers s (header t)))
             (rid (headers s (child t))))]
     else if is_Revision f \<and> is_Merge t then
       (let newParents = parent_ids (headers s (header t))
                           @ [commit (rid (headers s (header f)))] in
        [Mutate ''move_source'' (MoveSource (rid (headers s (header t))) newParents)])
     else if is_Revision f \<and> is_Repository t then
       [Mutate ''abandon_revisions''
          (AbandonRevisions [commit (rid (headers s (header f)))])]
     else if is_Parent f \<and> is_Repository t then
       (let removeCommit = commit (rid (headers s (header f)));
            newParents = filter (\<lambda>i. commit_hex i \<noteq> commit_hex removeCommit)
                           (parent_ids (headers s (child f))) in
        [Mutate ''move_source'' (MoveSource (rid (headers s (child f))) newParents)])
     else if is_Change f \<and> is_Revision t then
       [Mutate ''move_changes''
          (MoveChanges (rid (headers s (header f))) (commit (rid (headers s (header t))))
             [path f])]
     else if is_Change f \<and> is_Repository t then
       [Mutate ''copy_changes''
          (CopyChanges (js_index (parent_ids (headers s (header f))) 0)
             (rid (headers s (header f))) [path f])]
     else if is_Branch f \<and> is_Revision t then
       [Mutate ''move_branch'' (MoveBranch (rid (headers s (header t))) (name f))]
     else if is_Branch f \<and> is_Branch t then
       [Mutate ''move_branch'' (MoveBranch (rid (headers s (header t))) (name f))]
     else [ConsoleLog ''error: unknown validated mutation''])"

text \<open>The requests among the calls \<^verbatim>\<open>doDrop\<close> made.\<close>

fun is_request :: "Effect \<Rightarrow> bool" where
  "is_request (Mutate c p) = True"
| "is_request (ConsoleLog msg) = False"

definition requests :: "Effect list \<Rightarrow> Effect list" where
  "requests es = filter is_request es"

text \<open>
  The pairs of \<^verbatim>\<open>(from.type, to.type)\<close> for which \<^verbatim>\<open>doDrop\<close> has a branch, read
  off its nested tests: a Revision on a Revision, Parent, Merge or Repository; a Parent
  on the Repository; a Change on a Revision or the Repository; a Branch on a Revision
  or a Branch.
\<close>

definition dispatch_cell :: "Operand \<Rightarrow> Operand \<Rightarrow> bool" where
  "dispatch_cell f t =
     (is_Revision f \<and> (is_Revision t \<or> is_Parent t \<or> is_Merge t \<or> is_Repository t) \<or>
      is_Parent f \<and> is_Repository t \<or>
      is_Change f \<and> (is_Revision t \<or> is_Repository t) \<or>
      is_Branch f \<and> (is_Revision t \<or> is_Branch t))"

section \<open>Same entity, by value\<close>

text \<open>
  The specification's notion of two headers denoting the same logical revision, in its
  own words: equality of the identity pair (change id hex and commit id hex), whatever
  objects hold them. It is the yardstick the code's reference comparisons are measured
  against; the code itself never calls it.
\<close>

definition spec_same_entity :: "RevHeader \<Rightarrow> RevHeader \<Rightarrow> bool" where
  "spec_same_entity h1 h2 =
     (change_hex (change (rid h1)) = change_hex (change (rid h2)) \<and>
      commit_hex (commit (rid h1)) = commit_hex (commit (rid h2)))"

section \<open>A concrete repository view\<close>

text \<open>
  A store to evaluate the functions on. Headers: revision \<open>aaa\<close> rendered twice (addresses
  1 and 2 hold equal contents), its child \<open>bbb\<close> (3), the immutable revision \<open>iii\<close> with
  one parent (4), the merge \<open>mmm\<close> with three parents (5), the two-parent revision \<open>ttt\<close>
  (6) and the root-side revision \<open>ppp\<close> (7). Operands: the repository at address 9 and one
  operand per address from 10 on.
\<close>

definition ex_change :: "string \<Rightarrow> ChangeId" where
  "ex_change x = \<lparr>change_hex = x, change_prefix = take 1 x, change_rest = drop 1 x\<rparr>"

definition ex_commit :: "string \<Rightarrow> CommitId" where
  "ex_commit x = \<lparr>commit_hex = x, commit_prefix = take 1 x, commit_rest = drop 1 x\<rparr>"

definition ex_header :: "string \<Rightarrow> string \<Rightarrow> string list \<Rightarrow> bool \<Rightarrow> RevHeader" where
  "ex_header ch co ps imm =
     \<lparr>rid = \<lparr>change = ex_change ch, commit = ex_commit co\<rparr>, parent_ids = map ex_commit ps,
      is_immutable = imm, is_working_copy = False, has_conflict = False\<rparr>"

definition ex_path :: TreePath where
  "ex_path = \<lparr>relative_path = ''src/a.txt''\<rparr>"

definition ex_store :: store where
  "ex_store =
     \<lparr>headers = (\<lambda>_. ex_header ''zzz'' ''00'' [] True)
        (1 := ex_header ''aaa'' ''a1'' [''p0''] False,
         2 := ex_header ''aaa'' ''a1'' [''p0''] False,
         3 := ex_header ''bbb'' ''b1'' [''a1''] False,
         4 := ex_header ''iii'' ''i1'' [''p0''] True,
         5 := ex_header ''mmm'' ''m1'' [''a1'', ''b1'', ''p0''] False,
         6 := ex_header ''ttt'' ''t1'' [''a1'', ''b1''] False,
         7 := ex_header ''ppp'' ''p0'' [''00''] False),
      operands = (\<lambda>_. Repository)
        (9 := Repository,
         10 := Revision 1,
         11 := Revision 2,
         12 := Revision 3,
         13 := Revision 4,
         14 := Merge 5,
         15 := Parent 1 5,
         16 := Parent 7 2,
         17 := Parent 7 1,
         18 := Change 4 ex_path,
         19 := Change 6 ex_path,
         20 := Change 1 ex_path,
         21 := Branch 1 \<lparr>ref_type = LocalBranch, branch_name = ''main''\<rparr>,
         22 := Branch 1 \<lparr>ref_type = RemoteBranch, branch_name = ''main''\<rparr>,
         23 := Branch 3 \<lparr>ref_type = LocalBranch, branch_name = ''dev''\<rparr>,
         24 := Parent 7 4)\<rparr>"

section \<open>Properties\<close>

lemmas ex_defs = ex_store_def ex_header_def ex_commit_def ex_change_def ex_path_def

lemmas bm_defs = canDrop_def canDrag_def doDrop_def Let_def js_index_def requests_def

text \<open>Operands of different variants are different objects: one address, one content.\<close>

lemma distinct_variants_distinct_objects:
  "operands s a \<noteq> operands s b \<Longrightarrow> a \<noteq> b"
  by auto

subsection \<open>Dropping an entity on itself\<close>

text \<open>
  C1. The claim: whenever \<open>from\<close> and \<open>to\<close> denote the same logical entity (equal
  change id hex and commit id hex), \<open>canDrop\<close> returns \<open>no\<close>, also when the two are
  distinct objects from different renders. The code compares references. At the store
  above, addresses 1 and 2 hold equal headers of revision \<open>aaa\<close>; the Revision operand on
  the first dropped on the Revision operand on the second is accepted as a rebase of
  \<open>aaa\<close> onto \<open>aaa\<close>, and dropped on the Parent operand whose child is the second it is
  accepted as an insertion of \<open>aaa\<close> before \<open>aaa\<close>.
\<close>

theorem canDrop_distinct_renders:
  "headers ex_store 1 = headers ex_store 2 \<and>
   spec_same_entity (headers ex_store 1) (headers ex_store 2) \<and>
   operands ex_store 10 = Revision 1 \<and> operands ex_store 11 = Revision 2 \<and>
   canDrop ex_store \<lparr>m_from = 10, m_to = 11\<rparr> =
     Yes [Text ''Rebasing revision '', ChangeRef (ex_change ''aaa''),
          Text '' onto '', ChangeRef (ex_change ''aaa'')] \<and>
   operands ex_store 16 = Parent 7 2 \<and>
   canDrop ex_store \<lparr>m_from = 10, m_to = 16\<rparr> =
     Yes [Text ''Inserting revision '', ChangeRef (ex_change ''aaa''),
          Text '' before '', ChangeRef (ex_change ''aaa'')]"
  by (simp add: bm_defs ex_defs spec_same_entity_def)

subsection \<open>Eligibility and dispatch\<close>

text \<open>
  C2, as stated: \<open>doDrop\<close> issues a request if and only if \<open>canDrop\<close> returns \<open>yes\<close>.
  \<open>doDrop\<close> never consults \<open>canDrop\<close>: the immutable revision \<open>iii\<close> dropped on revision
  \<open>bbb\<close> is refused by \<open>canDrop\<close>, and \<open>doDrop\<close> on the same pair sends
  \<open>move_revision\<close>.
\<close>

theorem doDrop_ungated_counterexample:
  "\<not> ((requests (doDrop ex_store \<lparr>m_from = 13, m_to = 12\<rparr>) \<noteq> [])
        = is_Yes (canDrop ex_store \<lparr>m_from = 13, m_to = 12\<rparr>))"
  by (simp add: bm_defs ex_defs)

text \<open>
  C2, amended: \<open>doDrop\<close> issues a request if and only if the pair of variants is one
  of the nine pairs it has a branch for, and then it makes exactly one call, that
  request; on any other pair it only logs, and \<open>canDrop\<close> returns \<open>no\<close> there. Whenever
  \<open>canDrop\<close> returns \<open>yes\<close> the pair is one of the nine, so \<open>doDrop\<close> issues exactly
  one request. On every pair \<open>doDrop\<close> issues at most one request.
\<close>

theorem doDrop_request_iff_dispatch_cell:
  "((requests (doDrop s m) \<noteq> [])
      = dispatch_cell (operands s (m_from m)) (operands s (m_to m))) \<and>
   (dispatch_cell (operands s (m_from m)) (operands s (m_to m)) \<longrightarrow>
      (\<exists>c p. doDrop s m = [Mutate c p])) \<and>
   (\<not> dispatch_cell (operands s (m_from m)) (operands s (m_to m)) \<longrightarrow>
      doDrop s m = [ConsoleLog ''error: unknown validated mutation''] \<and> canDrop s m = No) \<and>
   (is_Yes (canDrop s m) \<longrightarrow>
      dispatch_cell (operands s (m_from m)) (operands s (m_to m)) \<and>
      (\<exists>c p. doDrop s m = [Mutate c p])) \<and>
   length (requests (doDrop s m)) \<le> 1"
  by (cases "operands s (m_from m)"; cases "operands s (m_to m)";
      simp add: bm_defs dispatch_cell_def)

text \<open>
  The mutable revision \<open>aaa\<close> dropped on revision \<open>bbb\<close>: accepted, one request. The
  merge \<open>mmm\<close> dropped on revision \<open>aaa\<close>: not a pair \<open>doDrop\<close> knows, refused, a log
  line and no request.
\<close>

theorem doDrop_request_iff_dispatch_cell_witness:
  "is_Yes (canDrop ex_store \<lparr>m_from = 10, m_to = 12\<rparr>) \<and>
   dispatch_cell (operands ex_store 10) (operands ex_store 12) \<and>
   (\<exists>c p. doDrop ex_store \<lparr>m_from = 10, m_to = 12\<rparr> = [Mutate c p]) \<and>
   length (requests (doDrop ex_store \<lparr>m_from = 10, m_to = 12\<rparr>)) \<le> 1 \<and>
   \<not> dispatch_cell (operands ex_store 14) (operands ex_store 10) \<and>
   doDrop ex_store \<lparr>m_from = 14, m_to = 10\<rparr>
     = [ConsoleLog ''error: unknown validated mutation''] \<and>
   canDrop ex_store \<lparr>m_from = 14, m_to = 10\<rparr> = No \<and>
   requests (doDrop ex_store \<lparr>m_from = 14, m_to = 10\<rparr>) = []"
proof -
  have yes: "is_Yes (canDrop ex_store \<lparr>m_from = 10, m_to = 12\<rparr>)"
    by (simp add: bm_defs ex_defs)
  have out: "\<not> dispatch_cell (operands ex_store (m_from \<lparr>m_from = 14, m_to = 10\<rparr>))
                 (operands ex_store (m_to \<lparr>m_from = 14, m_to = 10\<rparr>))"
    by (simp add: dispatch_cell_def ex_defs)
  from yes out
    doDrop_request_iff_dispatch_cell [of ex_store "\<lparr>m_from = 10, m_to = 12\<rparr>"]
    doDrop_request_iff_dispatch_cell [of ex_store "\<lparr>m_from = 14, m_to = 10\<rparr>"]
  show ?thesis by (simp add: requests_def)
qed

subsection \<open>Revision onto Merge\<close>

text \<open>
  C3. For a Revision operand \<open>from\<close> and a Merge operand \<open>to\<close> whose headers have
  different change id hex values, \<open>canDrop\<close> returns \<open>yes\<close> whatever \<open>canDrag from\<close>
  says (nothing is assumed of it), and \<open>doDrop\<close> sends exactly one \<open>move_source\<close>
  request for \<open>to\<close>'s revision whose parents are \<open>to\<close>'s parents, in order, followed by
  \<open>from\<close>'s commit id.
\<close>

theorem revision_onto_merge:
  assumes "operands s (m_from m) = Revision a"
    and "operands s (m_to m) = Merge b"
    and "change_hex (change (rid (headers s a))) \<noteq> change_hex (change (rid (headers s b)))"
  shows "canDrop s m =
           Yes [Text ''Adding parent to revision '', ChangeRef (change (rid (headers s b)))] \<and>
         doDrop s m =
           [Mutate ''move_source''
              (MoveSource (rid (headers s b))
                 (parent_ids (headers s b) @ [commit (rid (headers s a))]))]"
proof -
  have "m_from m \<noteq> m_to m"
    using assms(1,2) by (intro distinct_variants_distinct_objects [of s]) simp
  with assms show ?thesis
    by (auto simp add: canDrop_def doDrop_def Let_def)
qed

text \<open>
  The immutable revision \<open>iii\<close>, which \<open>canDrag\<close> does not accept, dropped on the merge
  \<open>mmm\<close>.
\<close>

theorem revision_onto_merge_witness:
  "\<not> is_Yes (canDrag ex_store (operands ex_store 13)) \<and>
   canDrop ex_store \<lparr>m_from = 13, m_to = 14\<rparr> =
     Yes [Text ''Adding parent to revision '', ChangeRef (ex_change ''mmm'')] \<and>
   doDrop ex_store \<lparr>m_from = 13, m_to = 14\<rparr> =
     [Mutate ''move_source''
        (MoveSource \<lparr>change = ex_change ''mmm'', commit = ex_commit ''m1''\<rparr>
           [ex_commit ''a1'', ex_commit ''b1'', ex_commit ''p0'', ex_commit ''i1''])]"
proof -
  have f: "operands ex_store (m_from \<lparr>m_from = 13, m_to = 14\<rparr>) = Revision 4"
    and t: "operands ex_store (m_to \<lparr>m_from = 13, m_to = 14\<rparr>) = Merge 5"
    and d: "change_hex (change (rid (headers ex_store 4)))
              \<noteq> change_hex (change (rid (headers ex_store 5)))"
    by (simp_all add: ex_defs)
  have g: "\<not> is_Yes (canDrag ex_store (operands ex_store 13))"
    by (simp add: canDrag_def ex_defs)
  from revision_onto_merge [OF f t d] g show ?thesis
    by (simp add: ex_defs)
qed

subsection \<open>Change onto Repository\<close>

text \<open>
  C4, as stated: for a Change operand \<open>A\<close>, \<open>canDrop (A, Repository)\<close> is \<open>yes\<close> if and
  only if \<open>A\<close>'s header has exactly one parent, and with any other number of parents no
  \<open>copy_changes\<close> request is issued. The drag gate comes first: the change in the
  immutable revision \<open>iii\<close>, which has one parent, is refused. And \<open>doDrop\<close> has no
  check of its own: on the change in the two-parent revision \<open>ttt\<close> it sends
  \<open>copy_changes\<close> from the first parent.
\<close>

theorem change_onto_repository_counterexample:
  "\<not> (is_Yes (canDrop ex_store \<lparr>m_from = 18, m_to = 9\<rparr>)
        = (length (parent_ids (headers ex_store (header (operands ex_store 18)))) = 1)) \<and>
   length (parent_ids (headers ex_store (header (operands ex_store 19)))) = 2 \<and>
   doDrop ex_store \<lparr>m_from = 19, m_to = 9\<rparr> =
     [Mutate ''copy_changes''
        (CopyChanges (Some (ex_commit ''a1''))
           \<lparr>change = ex_change ''ttt'', commit = ex_commit ''t1''\<rparr> [ex_path])]"
  by (simp add: bm_defs ex_defs)

text \<open>
  C4, amended: for a Change operand \<open>A\<close>, \<open>canDrop (A, Repository)\<close> is \<open>yes\<close> if and
  only if \<open>A\<close>'s header has exactly one parent and is not immutable. With an immutable
  header the result is \<open>no\<close>; with a mutable header and a number of parents other than
  one it is \<open>maybe\<close>, so the pair is never validated for \<open>copy_changes\<close>. \<open>doDrop\<close>
  itself sends \<open>copy_changes\<close> on every such pair, reading the first parent by index.
\<close>

theorem change_onto_repository:
  assumes "operands s (m_from m) = Change h p"
    and "operands s (m_to m) = Repository"
  shows "canDrop s m =
           (if is_immutable (headers s h) then No
            else if length (parent_ids (headers s h)) = 1 then
              Yes [Text (''Restoring changes at '' @ relative_path p @ '' from parent ''),
                   CommitRef (parent_ids (headers s h) ! 0)]
            else Maybe ''Can't restore: revision has multiple parents.'') \<and>
         is_Yes (canDrop s m)
           = (length (parent_ids (headers s h)) = 1 \<and> \<not> is_immutable (headers s h)) \<and>
         doDrop s m =
           [Mutate ''copy_changes''
              (CopyChanges (js_index (parent_ids (headers s h)) 0) (rid (headers s h)) [p])]"
proof -
  have "m_from m \<noteq> m_to m"
    using assms by (intro distinct_variants_distinct_objects [of s]) simp
  with assms show ?thesis
    by (simp add: canDrop_def canDrag_def doDrop_def Let_def)
qed

text \<open>
  The change in the mutable one-parent revision \<open>aaa\<close>, in the two-parent revision
  \<open>ttt\<close> and in the immutable revision \<open>iii\<close>.
\<close>

theorem change_onto_repository_witness:
  "is_Yes (canDrop ex_store \<lparr>m_from = 20, m_to = 9\<rparr>) \<and>
   canDrop ex_store \<lparr>m_from = 19, m_to = 9\<rparr>
     = Maybe ''Can't restore: revision has multiple parents.'' \<and>
   canDrop ex_store \<lparr>m_from = 18, m_to = 9\<rparr> = No"
proof -
  have one: "operands ex_store (m_from \<lparr>m_from = 20, m_to = 9\<rparr>) = Change 1 ex_path"
      "operands ex_store (m_to \<lparr>m_from = 20, m_to = 9\<rparr>) = Repository"
    and two: "operands ex_store (m_from \<lparr>m_from = 19, m_to = 9\<rparr>) = Change 6 ex_path"
      "operands ex_store (m_to \<lparr>m_from = 19, m_to = 9\<rparr>) = Repository"
    and imm: "operands ex_store (m_from \<lparr>m_from = 18, m_to = 9\<rparr>) = Change 4 ex_path"
      "operands ex_store (m_to \<lparr>m_from = 18, m_to = 9\<rparr>) = Repository"
    by (simp_all add: ex_defs)
  have h: "length (parent_ids (headers ex_store 1)) = 1" "\<not> is_immutable (headers ex_store 1)"
      "length (parent_ids (headers ex_store 6)) = 2" "\<not> is_immutable (headers ex_store 6)"
      "is_immutable (headers ex_store 4)"
    by (simp_all add: ex_defs)
  from change_onto_repository [OF one] change_onto_repository [OF two]
    change_onto_repository [OF imm] h
  show ?thesis by simp
qed

subsection \<open>Revision onto Parent\<close>

text \<open>
  C5, as stated: for a Revision operand \<open>A\<close> and a Parent operand with child \<open>C\<close>,
  \<open>canDrop\<close> is \<open>maybe\<close> iff \<open>C\<close> is immutable, \<open>no\<close> iff \<open>C\<close> is the same entity as
  \<open>A\<close>, and \<open>yes\<close> otherwise. The drag gate comes first: the immutable revision \<open>iii\<close>
  dropped before the mutable merge \<open>mmm\<close>, a different entity, is refused.
\<close>

theorem revision_onto_parent_counterexample:
  "operands ex_store 13 = Revision 4 \<and> operands ex_store 15 = Parent 1 5 \<and>
   \<not> is_immutable (headers ex_store 5) \<and>
   \<not> ((canDrop ex_store \<lparr>m_from = 13, m_to = 15\<rparr> = No)
        = spec_same_entity (headers ex_store 5) (headers ex_store 4)) \<and>
   (\<nexists>h. canDrop ex_store \<lparr>m_from = 13, m_to = 15\<rparr> = Yes h)"
  by (simp add: bm_defs ex_defs spec_same_entity_def)

text \<open>
  C5, amended: for a Revision operand \<open>A\<close> and a Parent operand with child \<open>C\<close>: when
  \<open>A\<close>'s header is immutable, \<open>canDrop\<close> is \<open>no\<close>. When it is not: \<open>canDrop\<close> is \<open>no\<close>
  if \<open>C\<close> is the very header object of \<open>A\<close>; and if \<open>C\<close>'s identity pair differs from
  \<open>A\<close>'s, it is \<open>maybe\<close> when \<open>C\<close> is immutable and \<open>yes\<close> otherwise. Nothing is said
  of a \<open>C\<close> that is another object with \<open>A\<close>'s identity pair.
\<close>

theorem revision_onto_parent:
  assumes "operands s (m_from m) = Revision a"
    and "operands s (m_to m) = Parent z c"
  shows "(is_immutable (headers s a) \<longrightarrow> canDrop s m = No) \<and>
         (\<not> is_immutable (headers s a) \<and> c = a \<longrightarrow> canDrop s m = No) \<and>
         (\<not> is_immutable (headers s a) \<and> \<not> spec_same_entity (headers s c) (headers s a) \<longrightarrow>
            canDrop s m =
              (if is_immutable (headers s c) then
                 Maybe ''(can't insert before an immutable revision)''
               else
                 Yes [Text ''Inserting revision '', ChangeRef (change (rid (headers s a))),
                      Text '' before '', ChangeRef (change (rid (headers s c)))]))"
proof -
  have ne: "m_from m \<noteq> m_to m"
    using assms by (intro distinct_variants_distinct_objects [of s]) simp
  have other: "c \<noteq> a" if "\<not> spec_same_entity (headers s c) (headers s a)"
    using that by (auto simp add: spec_same_entity_def)
  from assms ne other show ?thesis
    by (auto simp add: canDrop_def canDrag_def Let_def)
qed

text \<open>
  The immutable \<open>iii\<close> before \<open>mmm\<close>; the mutable \<open>aaa\<close> before its own header object,
  before the immutable \<open>iii\<close>, and before \<open>mmm\<close>.
\<close>

theorem revision_onto_parent_witness:
  "canDrop ex_store \<lparr>m_from = 13, m_to = 15\<rparr> = No \<and>
   canDrop ex_store \<lparr>m_from = 10, m_to = 17\<rparr> = No \<and>
   canDrop ex_store \<lparr>m_from = 10, m_to = 24\<rparr>
     = Maybe ''(can't insert before an immutable revision)'' \<and>
   canDrop ex_store \<lparr>m_from = 10, m_to = 15\<rparr>
     = Yes [Text ''Inserting revision '', ChangeRef (ex_change ''aaa''),
            Text '' before '', ChangeRef (ex_change ''mmm'')]"
proof -
  have i: "operands ex_store (m_from \<lparr>m_from = 13, m_to = 15\<rparr>) = Revision 4"
       "operands ex_store (m_to \<lparr>m_from = 13, m_to = 15\<rparr>) = Parent 1 5"
    and s: "operands ex_store (m_from \<lparr>m_from = 10, m_to = 17\<rparr>) = Revision 1"
       "operands ex_store (m_to \<lparr>m_from = 10, m_to = 17\<rparr>) = Parent 7 1"
    and b: "operands ex_store (m_from \<lparr>m_from = 10, m_to = 24\<rparr>) = Revision 1"
       "operands ex_store (m_to \<lparr>m_from = 10, m_to = 24\<rparr>) = Parent 7 4"
    and y: "operands ex_store (m_from \<lparr>m_from = 10, m_to = 15\<rparr>) = Revision 1"
       "operands ex_store (m_to \<lparr>m_from = 10, m_to = 15\<rparr>) = Parent 1 5"
    by (simp_all add: ex_defs)
  have h: "is_immutable (headers ex_store 4)" "\<not> is_immutable (headers ex_store 1)"
      "\<not> is_immutable (headers ex_store 5)"
      "\<not> spec_same_entity (headers ex_store 4) (headers ex_store 1)"
      "\<not> spec_same_entity (headers ex_store 5) (headers ex_store 1)"
    by (simp_all add: ex_defs spec_same_entity_def)
  from revision_onto_parent [OF i] revision_onto_parent [OF s] revision_onto_parent [OF b]
    revision_onto_parent [OF y] h
  show ?thesis by (simp add: ex_defs)
qed

subsection \<open>Branch onto Branch\<close>




subsection \<open>Parent onto Repository\<close>

text \<open>
  C7. For a Parent operand with header \<open>Z\<close> and child \<open>C\<close>, where \<open>C\<close> is not immutable
  and has two or more parents, \<open>canDrop (Parent, Repository)\<close> is \<open>yes\<close>, and \<open>doDrop\<close>
  sends one \<open>move_source\<close> request for \<open>C\<close> whose parents are \<open>C\<close>'s parents without
  every entry whose commit hex is \<open>Z\<close>'s commit hex, the others in their order.
\<close>

theorem parent_onto_repository:
  assumes "operands s (m_from m) = Parent z c"
    and "operands s (m_to m) = Repository"
    and "\<not> is_immutable (headers s c)"
    and "2 \<le> length (parent_ids (headers s c))"
  shows "canDrop s m =
           Yes [Text ''Removing parent from revision '', ChangeRef (change (rid (headers s c)))] \<and>
         doDrop s m =
           [Mutate ''move_source''
              (MoveSource (rid (headers s c))
                 (filter (\<lambda>i. commit_hex i \<noteq> commit_hex (commit (rid (headers s z))))
                    (parent_ids (headers s c))))]"
proof -
  have "m_from m \<noteq> m_to m"
    using assms(1,2) by (intro distinct_variants_distinct_objects [of s]) simp
  moreover have "length (parent_ids (headers s c)) \<noteq> 1"
    using assms(4) by arith
  ultimately show ?thesis
    using assms(1-3) by (simp add: canDrop_def canDrag_def doDrop_def Let_def)
qed

text \<open>The edge from \<open>aaa\<close> to the merge \<open>mmm\<close>, which has three parents.\<close>

theorem parent_onto_repository_witness:
  "length (parent_ids (headers ex_store 5)) = 3 \<and>
   canDrop ex_store \<lparr>m_from = 15, m_to = 9\<rparr> =
     Yes [Text ''Removing parent from revision '', ChangeRef (ex_change ''mmm'')] \<and>
   doDrop ex_store \<lparr>m_from = 15, m_to = 9\<rparr> =
     [Mutate ''move_source''
        (MoveSource \<lparr>change = ex_change ''mmm'', commit = ex_commit ''m1''\<rparr>
           [ex_commit ''b1'', ex_commit ''p0''])]"
proof -
  have f: "operands ex_store (m_from \<lparr>m_from = 15, m_to = 9\<rparr>) = Parent 1 5"
    and t: "operands ex_store (m_to \<lparr>m_from = 15, m_to = 9\<rparr>) = Repository"
    and i: "\<not> is_immutable (headers ex_store 5)"
    and n: "2 \<le> length (parent_ids (headers ex_store 5))"
    by (simp_all add: ex_defs)
  from parent_onto_repository [OF f t i n] show ?thesis
    by (simp add: ex_defs)
qed

subsection \<open>Drag eligibility\<close>

text \<open>
  C8. \<open>canDrag\<close> returns, for every operand, one of \<open>yes\<close>, \<open>maybe\<close> and \<open>no\<close> (the
  three are distinct constructors, so exactly one), and it returns \<open>no\<close> exactly
  when the operand is a Repository or a Merge.
\<close>

theorem canDrag_total:
  "((\<exists>h. canDrag s x = Yes h) \<or> (\<exists>r. canDrag s x = Maybe r) \<or> canDrag s x = No) \<and>
   (canDrag s x = No) = (is_Repository x \<or> is_Merge x)"
proof
  show "(\<exists>h. canDrag s x = Yes h) \<or> (\<exists>r. canDrag s x = Maybe r) \<or> canDrag s x = No"
    by (cases "canDrag s x") simp_all
  show "(canDrag s x = No) = (is_Repository x \<or> is_Merge x)"
    by (cases x) (simp_all add: canDrag_def)
qed

text \<open>
  C9. For a Parent operand whose child is immutable and has exactly one parent,
  \<open>canDrag\<close> returns \<open>maybe\<close> with the hint \<open>(child is immutable)\<close>: the immutability
  check comes before the single-parent check.
\<close>

theorem canDrag_parent_immutable_first:
  assumes "is_immutable (headers s c)"
    and "length (parent_ids (headers s c)) = 1"
  shows "canDrag s (Parent z c) = Maybe ''(child is immutable)''"
  using assms by (simp add: canDrag_def)

text \<open>The edge into the immutable one-parent revision \<open>iii\<close>.\<close>

theorem canDrag_parent_immutable_first_witness:
  "is_immutable (headers ex_store 4) \<and> length (parent_ids (headers ex_store 4)) = 1 \<and>
   canDrag ex_store (Parent 7 4) = Maybe ''(child is immutable)''"
proof -
  have i: "is_immutable (headers ex_store 4)"
    and n: "length (parent_ids (headers ex_store 4)) = 1"
    by (simp_all add: ex_defs)
  from canDrag_parent_immutable_first [OF i n] i n show ?thesis
    by simp
qed

subsection \<open>The first parent in \<open>copy_changes\<close>\<close>

text \<open>
  C10. \<open>doDrop\<close> on a Change dropped on the Repository reads the first parent id with
  no length check: with no parent the request carries an undefined \<open>from_id\<close>. When the
  parent list is not empty the read is in bounds and \<open>from_id\<close> is the first parent;
  and whenever \<open>canDrop\<close> returned \<open>yes\<close> the list has exactly one entry.
\<close>

theorem copy_changes_from_id_defined:
  assumes "operands s (m_from m) = Change h p"
    and "operands s (m_to m) = Repository"
  shows "(parent_ids (headers s h) \<noteq> [] \<longrightarrow>
            doDrop s m =
              [Mutate ''copy_changes''
                 (CopyChanges (Some (parent_ids (headers s h) ! 0)) (rid (headers s h)) [p])]) \<and>
         (is_Yes (canDrop s m) \<longrightarrow> length (parent_ids (headers s h)) = 1) \<and>
         (parent_ids (headers s h) = [] \<longrightarrow>
            doDrop s m =
              [Mutate ''copy_changes'' (CopyChanges None (rid (headers s h)) [p])])"
proof -
  have "m_from m \<noteq> m_to m"
    using assms by (intro distinct_variants_distinct_objects [of s]) simp
  with assms show ?thesis
    by (simp add: canDrop_def canDrag_def doDrop_def Let_def js_index_def)
qed

text \<open>The change in the one-parent revision \<open>aaa\<close>.\<close>

theorem copy_changes_from_id_defined_witness:
  "is_Yes (canDrop ex_store \<lparr>m_from = 20, m_to = 9\<rparr>) \<and>
   length (parent_ids (headers ex_store 1)) = 1 \<and>
   doDrop ex_store \<lparr>m_from = 20, m_to = 9\<rparr> =
     [Mutate ''copy_changes''
        (CopyChanges (Some (ex_commit ''p0''))
           \<lparr>change = ex_change ''aaa'', commit = ex_commit ''a1''\<rparr> [ex_path])]"
proof -
  have f: "operands ex_store (m_from \<lparr>m_from = 20, m_to = 9\<rparr>) = Change 1 ex_path"
    and t: "operands ex_store (m_to \<lparr>m_from = 20, m_to = 9\<rparr>) = Repository"
    by (simp_all add: ex_defs)
  have y: "is_Yes (canDrop ex_store \<lparr>m_from = 20, m_to = 9\<rparr>)"
    by (simp add: bm_defs ex_defs)
  have e: "parent_ids (headers ex_store 1) = [ex_commit ''p0'']"
      "rid (headers ex_store 1) = \<lparr>change = ex_change ''aaa'', commit = ex_commit ''a1''\<rparr>"
    by (simp_all add: ex_defs)
  from copy_changes_from_id_defined [OF f t] y e show ?thesis
    by simp
qed

end
